theory Spec2Isabelle
  imports Complex_Main "HOL-Library.Word"
begin

section \<open>JavaScript strings\<close>

text \<open>
  A JavaScript string is a sequence of UTF-16 code units; \<open>.length\<close> and the
  \<open>maxLength\<close> attribute of a textarea count code units, and a string is falsy exactly
  when it is empty. \<open>utf16\<close> embeds the ASCII literals of the source.
\<close>

type_synonym jsstring = "16 word list"

definition utf16 :: "string \<Rightarrow> jsstring" where
  "utf16 s = map (\<lambda>c. of_nat (of_char c)) s"

text \<open>
  \<open>String.prototype.trim\<close> removes the WhiteSpace and LineTerminator code points of
  ECMAScript from both ends.
\<close>

definition isWhiteSpace :: "16 word \<Rightarrow> bool" where
  "isWhiteSpace c \<longleftrightarrow>
     c = 0x0009 \<or> c = 0x000A \<or> c = 0x000B \<or> c = 0x000C \<or> c = 0x000D \<or>
     c = 0x0020 \<or> c = 0x00A0 \<or> c = 0x1680 \<or> (0x2000 \<le> c \<and> c \<le> 0x200A) \<or>
     c = 0x2028 \<or> c = 0x2029 \<or> c = 0x202F \<or> c = 0x205F \<or> c = 0x3000 \<or>
     c = 0xFEFF"

definition trim :: "jsstring \<Rightarrow> jsstring" where
  "trim s = rev (dropWhile isWhiteSpace (rev (dropWhile isWhiteSpace s)))"

section \<open>Data model (types/index.ts)\<close>

text \<open>
  Each interface is a record; the fields carry a prefix because record fields are global
  names. Identifiers are integers; the other \<open>number\<close> fields are doubles on which the
  modelled code does no arithmetic. \<open>T | null\<close> and optional fields are options.
\<close>

record Show =
  sh_id :: int
  sh_name :: jsstring
  sh_summary :: "jsstring option"
  sh_image_url :: "jsstring option"
  sh_premiered :: "jsstring option"
  sh_genres :: "jsstring list"
  sh_rating :: "real option"
  sh_status :: "jsstring option"
  sh_official_site :: "jsstring option"

record SearchResult =
  sr_score :: real
  sr_show :: Show

record SearchResponse =
  srp_results :: "SearchResult list"
  srp_query :: jsstring

record Episode =
  ep_id :: int
  ep_show_id :: int
  ep_name :: jsstring
  ep_season :: int
  ep_number :: int
  ep_summary :: "jsstring option"
  ep_airdate :: "jsstring option"
  ep_runtime :: "real option"
  ep_image_url :: "jsstring option"

record SeasonEpisodes =
  se_season :: int
  se_episodes :: "Episode list"

record ShowDetail =
  sd_show :: Show
  sd_seasons :: "SeasonEpisodes list"

record WatchedEpisodesResponse =
  we_show_id :: int
  we_episode_ids :: "int list"

record Comment =
  c_id :: int
  c_content :: jsstring
  c_show_id :: int
  c_episode_id :: "int option"
  c_created_at :: jsstring

record CommentsResponse =
  cr_comments :: "Comment list"

record AIInsight =
  ai_content :: jsstring
  ai_show_id :: int
  ai_episode_id :: "int option"
  ai_generated_at :: jsstring

record CreateCommentRequest =
  cc_content :: jsstring
  cc_show_id :: int
  cc_episode_id :: "int option"

record MarkWatchedRequest =
  mw_episode_id :: int
  mw_show_id :: int

record AIInsightRequest =
  ir_show_id :: int
  ir_episode_id :: "int option"
  ir_include_comments :: "bool option"

section \<open>Network calls (api/client.ts)\<close>

text \<open>
  The client functions only build a request and await \<open>fetch\<close>. A call is a value; the
  synchronous part of a handler returns the new component state together with the calls
  it issued, and each continuation after an \<open>await\<close> is a function of its own, applied
  to the state at the moment the response lands (\<open>_resolved\<close> for the \<open>try\<close> branch,
  \<open>_rejected\<close> for \<open>catch\<close>, both followed by \<open>finally\<close>).
\<close>

datatype api_call =
    SearchShows jsstring
  | GetShowDetails int
  | GetWatchedEpisodes int
  | MarkEpisodeWatched MarkWatchedRequest
  | UnmarkEpisodeWatched int int
  | GetShowComments int
  | GetEpisodeComments int int
  | CreateComment CreateCommentRequest
  | DeleteComment int
  | GenerateInsight AIInsightRequest

section \<open>SearchBar and SearchPage\<close>

record SearchPage_state =
  sp_results :: "SearchResult list"
  sp_isLoading :: bool
  sp_hasSearched :: bool
  sp_error :: "jsstring option"

definition SearchPage_init :: SearchPage_state where
  "SearchPage_init =
     \<lparr>sp_results = [], sp_isLoading = False, sp_hasSearched = False, sp_error = None\<rparr>"

definition handleSearch :: "SearchPage_state \<Rightarrow> jsstring \<Rightarrow> SearchPage_state \<times> api_call list" where
  "handleSearch s query =
     (if trim query = [] then (s\<lparr>sp_results := [], sp_hasSearched := False\<rparr>, [])
      else (s\<lparr>sp_isLoading := True, sp_error := None, sp_hasSearched := True\<rparr>,
            [SearchShows query]))"

definition handleSearch_resolved :: "SearchResponse \<Rightarrow> SearchPage_state \<Rightarrow> SearchPage_state" where
  "handleSearch_resolved response s =
     s\<lparr>sp_results := srp_results response, sp_isLoading := False\<rparr>"

definition handleSearch_rejected :: "SearchPage_state \<Rightarrow> SearchPage_state" where
  "handleSearch_rejected s =
     s\<lparr>sp_error := Some (utf16 ''Failed to search shows. Please try again.''),
       sp_results := [], sp_isLoading := False\<rparr>"

text \<open>
  The effect of SearchBar runs whenever the debounced query changes; it calls
  \<open>onSearch\<close> with the trimmed query only when that is non-empty. The result is the
  argument of the call, if any. The debounce hook itself is a parameter: the events
  below carry the debounced values.
\<close>

definition SearchBar_effect :: "jsstring \<Rightarrow> jsstring option" where
  "SearchBar_effect debouncedQuery =
     (if trim debouncedQuery \<noteq> [] then Some (trim debouncedQuery) else None)"

definition search_input :: "SearchPage_state \<Rightarrow> jsstring \<Rightarrow> SearchPage_state \<times> api_call list" where
  "search_input s debouncedQuery =
     (case SearchBar_effect debouncedQuery of
        None \<Rightarrow> (s, [])
      | Some q \<Rightarrow> handleSearch s q)"

datatype search_event =
    DebouncedQuery jsstring
  | SearchResolved SearchResponse
  | SearchRejected

definition search_step :: "SearchPage_state \<Rightarrow> search_event \<Rightarrow> SearchPage_state" where
  "search_step s ev =
     (case ev of
        DebouncedQuery q \<Rightarrow> fst (search_input s q)
      | SearchResolved r \<Rightarrow> handleSearch_resolved r s
      | SearchRejected \<Rightarrow> handleSearch_rejected s)"

definition search_run :: "SearchPage_state \<Rightarrow> search_event list \<Rightarrow> SearchPage_state" where
  "search_run s evs = foldl search_step s evs"

text \<open>The queries sent to the server along a trace, oldest first.\<close>

fun issued :: "SearchPage_state \<Rightarrow> search_event list \<Rightarrow> api_call list" where
  "issued s [] = []"
| "issued s (DebouncedQuery q # evs) = snd (search_input s q) @ issued (search_step s (DebouncedQuery q)) evs"
| "issued s (ev # evs) = issued (search_step s ev) evs"

text \<open>
  A stretch of a trace in which only queries that are not blank come out of the
  debounce and no response arrives.
\<close>

fun only_searches :: "search_event list \<Rightarrow> bool" where
  "only_searches [] = True"
| "only_searches (DebouncedQuery q # evs) = (trim q \<noteq> [] \<and> only_searches evs)"
| "only_searches (ev # evs) = False"

section \<open>ShowDetailPage\<close>

text \<open>
  The component state is the tuple of its \<open>useState\<close> cells. The \<open>showId\<close> prop is
  a parameter of the handlers that close over it. A handler reads the state of the
  render it was created in; handlers are re-created on every state change they depend
  on, so a handler invoked by an event reads the current state.
\<close>

record ShowDetailPage_state =
  showData :: "ShowDetail option"
  watchedEpisodes :: "int set"
  showComments :: "Comment list"
  showInsight :: "AIInsight option"
  selectedSeason :: "int option"
  isLoading :: bool
  isLoadingComments :: bool
  isLoadingInsight :: bool
  error :: "jsstring option"
  selectedEpisode :: "Episode option"
  episodeComments :: "Comment list"
  episodeInsight :: "AIInsight option"
  isLoadingEpisodeComments :: bool
  isLoadingEpisodeInsight :: bool

definition ShowDetailPage_init :: ShowDetailPage_state where
  "ShowDetailPage_init =
     \<lparr>showData = None, watchedEpisodes = {}, showComments = [], showInsight = None,
      selectedSeason = None, isLoading = True, isLoadingComments = False,
      isLoadingInsight = False, error = None, selectedEpisode = None,
      episodeComments = [], episodeInsight = None, isLoadingEpisodeComments = False,
      isLoadingEpisodeInsight = False\<rparr>"

subsection \<open>Loading the show\<close>

definition loadShowData :: "int \<Rightarrow> ShowDetailPage_state \<Rightarrow> ShowDetailPage_state \<times> api_call list" where
  "loadShowData showId s =
     (s\<lparr>isLoading := True, error := None\<rparr>,
      [GetShowDetails showId, GetWatchedEpisodes showId, GetShowComments showId])"

definition loadShowData_resolved ::
  "ShowDetail \<Rightarrow> WatchedEpisodesResponse \<Rightarrow> CommentsResponse \<Rightarrow>
   ShowDetailPage_state \<Rightarrow> ShowDetailPage_state" where
  "loadShowData_resolved details watched comments s =
     s\<lparr>showData := Some details,
       watchedEpisodes := set (we_episode_ids watched),
       showComments := cr_comments comments,
       selectedSeason :=
         (case sd_seasons details of [] \<Rightarrow> selectedSeason s | s0 # _ \<Rightarrow> Some (se_season s0)),
       isLoading := False\<rparr>"

definition loadShowData_rejected :: "ShowDetailPage_state \<Rightarrow> ShowDetailPage_state" where
  "loadShowData_rejected s =
     s\<lparr>error := Some (utf16 ''Failed to load show details. Please try again.''),
       isLoading := False\<rparr>"

text \<open>
  \<open>Promise.all\<close> over the three loads: it is rejected as soon as one load is rejected
  and fulfilled once all three are fulfilled; a promise settles once, so an event for
  a load that has settled, or after the aggregate has settled, changes nothing.
\<close>

datatype load_event =
    DetailsResolved ShowDetail
  | WatchedResolved WatchedEpisodesResponse
  | CommentsResolved CommentsResponse
  | DetailsRejected
  | WatchedRejected
  | CommentsRejected

record promise_all =
  pa_details :: "ShowDetail option"
  pa_watched :: "WatchedEpisodesResponse option"
  pa_comments :: "CommentsResponse option"
  pa_settled :: bool

datatype all_outcome =
    AllFulfilled ShowDetail WatchedEpisodesResponse CommentsResponse
  | AllRejected

definition promise_all_init :: promise_all where
  "promise_all_init =
     \<lparr>pa_details = None, pa_watched = None, pa_comments = None, pa_settled = False\<rparr>"

definition all_check :: "promise_all \<Rightarrow> promise_all \<times> all_outcome option" where
  "all_check pa =
     (case (pa_details pa, pa_watched pa, pa_comments pa) of
        (Some d, Some w, Some c) \<Rightarrow> (pa\<lparr>pa_settled := True\<rparr>, Some (AllFulfilled d w c))
      | _ \<Rightarrow> (pa, None))"

definition all_reject :: "promise_all \<Rightarrow> promise_all \<times> all_outcome option" where
  "all_reject pa = (pa\<lparr>pa_settled := True\<rparr>, Some AllRejected)"

definition promise_all_step :: "promise_all \<Rightarrow> load_event \<Rightarrow> promise_all \<times> all_outcome option" where
  "promise_all_step pa ev =
     (if pa_settled pa then (pa, None)
      else case ev of
        DetailsResolved d \<Rightarrow>
          (if pa_details pa = None then all_check (pa\<lparr>pa_details := Some d\<rparr>) else (pa, None))
      | WatchedResolved w \<Rightarrow>
          (if pa_watched pa = None then all_check (pa\<lparr>pa_watched := Some w\<rparr>) else (pa, None))
      | CommentsResolved c \<Rightarrow>
          (if pa_comments pa = None then all_check (pa\<lparr>pa_comments := Some c\<rparr>) else (pa, None))
      | DetailsRejected \<Rightarrow> (if pa_details pa = None then all_reject pa else (pa, None))
      | WatchedRejected \<Rightarrow> (if pa_watched pa = None then all_reject pa else (pa, None))
      | CommentsRejected \<Rightarrow> (if pa_comments pa = None then all_reject pa else (pa, None)))"

definition load_step ::
  "ShowDetailPage_state \<times> promise_all \<Rightarrow> load_event \<Rightarrow> ShowDetailPage_state \<times> promise_all" where
  "load_step st ev =
     (case promise_all_step (snd st) ev of
        (pa', None) \<Rightarrow> (fst st, pa')
      | (pa', Some (AllFulfilled d w c)) \<Rightarrow> (loadShowData_resolved d w c (fst st), pa')
      | (pa', Some AllRejected) \<Rightarrow> (loadShowData_rejected (fst st), pa'))"

definition activate :: "int \<Rightarrow> ShowDetailPage_state \<times> promise_all" where
  "activate showId = (fst (loadShowData showId ShowDetailPage_init), promise_all_init)"

definition load_run :: "int \<Rightarrow> load_event list \<Rightarrow> ShowDetailPage_state \<times> promise_all" where
  "load_run showId evs = foldl load_step (activate showId) evs"

text \<open>
  Whether a rejection event reaches the aggregate: the aggregate and the load of the
  event are still pending.
\<close>

fun rejects :: "promise_all \<Rightarrow> load_event \<Rightarrow> bool" where
  "rejects pa DetailsRejected = (\<not> pa_settled pa \<and> pa_details pa = None)"
| "rejects pa WatchedRejected = (\<not> pa_settled pa \<and> pa_watched pa = None)"
| "rejects pa CommentsRejected = (\<not> pa_settled pa \<and> pa_comments pa = None)"
| "rejects pa _ = False"

subsection \<open>Render guards\<close>

datatype page_view =
    Spinner
  | ErrorScreen jsstring
  | Detail ShowDetail

definition truthy :: "jsstring option \<Rightarrow> bool" where
  "truthy v = (case v of None \<Rightarrow> False | Some x \<Rightarrow> x \<noteq> [])"

text \<open>\<open>a || b\<close> on strings: \<open>a\<close> when it is truthy, else \<open>b\<close>.\<close>

definition js_or :: "jsstring option \<Rightarrow> jsstring \<Rightarrow> jsstring" where
  "js_or v d = (case v of None \<Rightarrow> d | Some x \<Rightarrow> if x \<noteq> [] then x else d)"

text \<open>
  The two early returns of the component: the spinner while \<open>isLoading\<close>, the error
  screen when \<open>error || !showData\<close>, with the text \<open>error || 'Show not found'\<close>.
\<close>

definition ShowDetailPage_render :: "ShowDetailPage_state \<Rightarrow> page_view" where
  "ShowDetailPage_render s =
     (if isLoading s then Spinner
      else case showData s of
             None \<Rightarrow> ErrorScreen (js_or (error s) (utf16 ''Show not found''))
           | Some d \<Rightarrow>
               if truthy (error s) then ErrorScreen (js_or (error s) (utf16 ''Show not found''))
               else Detail d)"

definition currentSeason :: "ShowDetailPage_state \<Rightarrow> ShowDetail \<Rightarrow> SeasonEpisodes option" where
  "currentSeason s d = find (\<lambda>x. Some (se_season x) = selectedSeason s) (sd_seasons d)"

text \<open>The episodes for which an EpisodeCard is rendered.\<close>

definition episode_list :: "ShowDetailPage_state \<Rightarrow> ShowDetail \<Rightarrow> Episode list" where
  "episode_list s d = (case currentSeason s d of None \<Rightarrow> [] | Some x \<Rightarrow> se_episodes x)"

subsection \<open>Watched toggle\<close>

definition handleToggleWatched ::
  "int \<Rightarrow> ShowDetailPage_state \<Rightarrow> int \<Rightarrow> ShowDetailPage_state \<times> api_call list" where
  "handleToggleWatched showId s episodeId =
     (let isCurrentlyWatched = episodeId \<in> watchedEpisodes s in
      (s\<lparr>watchedEpisodes :=
           (if isCurrentlyWatched then watchedEpisodes s - {episodeId}
            else insert episodeId (watchedEpisodes s))\<rparr>,
       [if isCurrentlyWatched then UnmarkEpisodeWatched showId episodeId
        else MarkEpisodeWatched \<lparr>mw_episode_id = episodeId, mw_show_id = showId\<rparr>]))"

text \<open>
  The continuations close over \<open>isCurrentlyWatched\<close> and \<open>episodeId\<close> of the call.
  Nothing follows the \<open>await\<close> in the \<open>try\<close> block.
\<close>

definition handleToggleWatched_resolved ::
  "ShowDetailPage_state \<Rightarrow> ShowDetailPage_state \<times> api_call list" where
  "handleToggleWatched_resolved s = (s, [])"

definition handleToggleWatched_rejected ::
  "bool \<Rightarrow> int \<Rightarrow> ShowDetailPage_state \<Rightarrow> ShowDetailPage_state \<times> api_call list" where
  "handleToggleWatched_rejected isCurrentlyWatched episodeId s =
     (s\<lparr>watchedEpisodes :=
          (if isCurrentlyWatched then insert episodeId (watchedEpisodes s)
           else watchedEpisodes s - {episodeId})\<rparr>, [])"

subsection \<open>Comments\<close>

definition handleAddShowComment ::
  "int \<Rightarrow> ShowDetailPage_state \<Rightarrow> jsstring \<Rightarrow> ShowDetailPage_state \<times> api_call list" where
  "handleAddShowComment showId s content =
     (s, [CreateComment \<lparr>cc_content = content, cc_show_id = showId, cc_episode_id = None\<rparr>])"

definition handleAddShowComment_resolved :: "Comment \<Rightarrow> ShowDetailPage_state \<Rightarrow> ShowDetailPage_state" where
  "handleAddShowComment_resolved comment s = s\<lparr>showComments := comment # showComments s\<rparr>"

text \<open>A rejected \<open>createComment\<close> makes the handler throw at the \<open>await\<close>.\<close>

definition handleAddShowComment_rejected :: "ShowDetailPage_state \<Rightarrow> ShowDetailPage_state" where
  "handleAddShowComment_rejected s = s"

definition handleDeleteShowComment ::
  "ShowDetailPage_state \<Rightarrow> int \<Rightarrow> ShowDetailPage_state \<times> api_call list" where
  "handleDeleteShowComment s commentId = (s, [DeleteComment commentId])"

definition handleDeleteShowComment_resolved :: "int \<Rightarrow> ShowDetailPage_state \<Rightarrow> ShowDetailPage_state" where
  "handleDeleteShowComment_resolved commentId s =
     s\<lparr>showComments := filter (\<lambda>c. c_id c \<noteq> commentId) (showComments s)\<rparr>"

definition handleAddEpisodeComment ::
  "int \<Rightarrow> ShowDetailPage_state \<Rightarrow> jsstring \<Rightarrow> ShowDetailPage_state \<times> api_call list" where
  "handleAddEpisodeComment showId s content =
     (case selectedEpisode s of
        None \<Rightarrow> (s, [])
      | Some e \<Rightarrow>
          (s, [CreateComment \<lparr>cc_content = content, cc_show_id = showId,
                              cc_episode_id = Some (ep_id e)\<rparr>]))"

definition handleAddEpisodeComment_resolved :: "Comment \<Rightarrow> ShowDetailPage_state \<Rightarrow> ShowDetailPage_state" where
  "handleAddEpisodeComment_resolved comment s = s\<lparr>episodeComments := comment # episodeComments s\<rparr>"

definition handleAddEpisodeComment_rejected :: "ShowDetailPage_state \<Rightarrow> ShowDetailPage_state" where
  "handleAddEpisodeComment_rejected s = s"

subsection \<open>Insights\<close>





definition handleGenerateEpisodeInsight_resolved :: "AIInsight \<Rightarrow> ShowDetailPage_state \<Rightarrow> ShowDetailPage_state" where
  "handleGenerateEpisodeInsight_resolved insight s =
     s\<lparr>episodeInsight := Some insight, isLoadingEpisodeInsight := False\<rparr>"


subsection \<open>Episode modal\<close>

definition handleViewEpisodeComments ::
  "int \<Rightarrow> ShowDetailPage_state \<Rightarrow> Episode \<Rightarrow> ShowDetailPage_state \<times> api_call list" where
  "handleViewEpisodeComments showId s episode =
     (s\<lparr>selectedEpisode := Some episode, isLoadingEpisodeComments := True,
        episodeInsight := None\<rparr>,
      [GetEpisodeComments showId (ep_id episode)])"

definition handleViewEpisodeComments_resolved ::
  "CommentsResponse \<Rightarrow> ShowDetailPage_state \<Rightarrow> ShowDetailPage_state" where
  "handleViewEpisodeComments_resolved comments s =
     s\<lparr>episodeComments := cr_comments comments, isLoadingEpisodeComments := False\<rparr>"

definition handleViewEpisodeComments_rejected :: "ShowDetailPage_state \<Rightarrow> ShowDetailPage_state" where
  "handleViewEpisodeComments_rejected s =
     s\<lparr>episodeComments := [], isLoadingEpisodeComments := False\<rparr>"

definition handleCloseEpisodeModal :: "ShowDetailPage_state \<Rightarrow> ShowDetailPage_state" where
  "handleCloseEpisodeModal s =
     s\<lparr>selectedEpisode := None, episodeComments := [], episodeInsight := None\<rparr>"

text \<open>The Modal is open iff an episode is selected (\<open>isOpen={!!selectedEpisode}\<close>).\<close>

definition modal_isOpen :: "ShowDetailPage_state \<Rightarrow> bool" where
  "modal_isOpen s = (selectedEpisode s \<noteq> None)"

section \<open>CommentsSection\<close>

record CommentsSection_state =
  newComment :: jsstring
  isSubmitting :: bool





definition handleSubmit_resolved :: "CommentsSection_state \<Rightarrow> CommentsSection_state" where
  "handleSubmit_resolved cs = cs\<lparr>newComment := [], isSubmitting := False\<rparr>"

definition handleSubmit_rejected :: "CommentsSection_state \<Rightarrow> CommentsSection_state" where
  "handleSubmit_rejected cs = cs\<lparr>isSubmitting := False\<rparr>"


section \<open>AIInsightPanel\<close>









section \<open>Derived notions used in the statements\<close>

text \<open>
  The invariant of a detail load: until the aggregate settles the page is the one the
  activation left (spinner) and a load is pending; once it has settled the page is the
  result of the \<open>catch\<close> branch or of the \<open>try\<close> branch on the three responses.
\<close>

definition load_inv :: "int \<Rightarrow> ShowDetailPage_state \<times> promise_all \<Rightarrow> bool" where
  "load_inv showId st =
     (if pa_settled (snd st)
      then fst st = loadShowData_rejected (fst (activate showId)) \<or>
           (case (pa_details (snd st), pa_watched (snd st), pa_comments (snd st)) of
              (Some d, Some w, Some c) \<Rightarrow>
                fst st = loadShowData_resolved d w c (fst (activate showId))
            | _ \<Rightarrow> False)
      else fst st = fst (activate showId) \<and>
           (pa_details (snd st) = None \<or> pa_watched (snd st) = None \<or>
            pa_comments (snd st) = None))"

text \<open>Open the modal for episode \<open>a\<close>, close it, open it for episode \<open>b\<close>.\<close>

definition open_close_open ::
  "int \<Rightarrow> ShowDetailPage_state \<Rightarrow> Episode \<Rightarrow> Episode \<Rightarrow> ShowDetailPage_state" where
  "open_close_open showId s a b =
     fst (handleViewEpisodeComments showId
            (handleCloseEpisodeModal (fst (handleViewEpisodeComments showId s a))) b)"

subsection \<open>Concrete values for the witnesses\<close>

definition ex_show :: "int \<Rightarrow> jsstring \<Rightarrow> Show" where
  "ex_show i n =
     \<lparr>sh_id = i, sh_name = n, sh_summary = None, sh_image_url = None, sh_premiered = None,
      sh_genres = [], sh_rating = None, sh_status = None, sh_official_site = None\<rparr>"

definition ex_response :: "jsstring \<Rightarrow> int \<Rightarrow> SearchResponse" where
  "ex_response q i = \<lparr>srp_results = [\<lparr>sr_score = 1, sr_show = ex_show i q\<rparr>], srp_query = q\<rparr>"

definition ex_episode :: "int \<Rightarrow> int \<Rightarrow> Episode" where
  "ex_episode i n =
     \<lparr>ep_id = i, ep_show_id = 1, ep_name = utf16 ''Pilot'', ep_season = 1, ep_number = n,
      ep_summary = None, ep_airdate = None, ep_runtime = None, ep_image_url = None\<rparr>"

definition ex_comment :: "int \<Rightarrow> int option \<Rightarrow> Comment" where
  "ex_comment i e =
     \<lparr>c_id = i, c_content = utf16 ''great'', c_show_id = 1, c_episode_id = e,
      c_created_at = utf16 ''2025-01-01T00:00:00''\<rparr>"


definition ex_detail :: ShowDetail where
  "ex_detail =
     \<lparr>sd_show = ex_show 1 (utf16 ''The Office''),
      sd_seasons = [\<lparr>se_season = 1, se_episodes = [ex_episode 10 1, ex_episode 11 2]\<rparr>]\<rparr>"

definition ex_watched :: WatchedEpisodesResponse where
  "ex_watched = \<lparr>we_show_id = 1, we_episode_ids = [10]\<rparr>"

definition ex_comments :: CommentsResponse where
  "ex_comments = \<lparr>cr_comments = [ex_comment 100 None]\<rparr>"

text \<open>The page of show 1 after its three loads have resolved.\<close>

definition ex_ready :: ShowDetailPage_state where
  "ex_ready = loadShowData_resolved ex_detail ex_watched ex_comments (fst (activate 1))"




section \<open>Strings\<close>

lemma utf16_eq_Nil: "(utf16 s = []) = (s = [])"
  by (simp add: utf16_def)

lemma trim_Nil: "trim [] = []"
  by (simp add: trim_def)

lemma trim_blank: "trim (utf16 ''   '') = []"
  by (simp add: trim_def utf16_def isWhiteSpace_def)

lemma trim_the: "trim (utf16 ''the'') = utf16 ''the''"
  by (simp add: trim_def utf16_def isWhiteSpace_def)

lemma trim_office: "trim (utf16 ''the office'') = utf16 ''the office''"
  by (simp add: trim_def utf16_def isWhiteSpace_def)


lemma last_dropWhile_ne: "dropWhile P xs \<noteq> [] \<Longrightarrow> last (dropWhile P xs) = last xs"
  by (induction xs) (auto split: if_splits)

lemma dropWhile_self: "xs = [] \<or> \<not> P (hd xs) \<Longrightarrow> dropWhile P xs = xs"
  by (cases xs) auto

lemma trim_core_idem:
  "rev (dropWhile P (rev (dropWhile P (rev (dropWhile P (rev (dropWhile P s))))))) =
   rev (dropWhile P (rev (dropWhile P s)))"
proof -
  let ?a = "dropWhile P s"
  let ?b = "dropWhile P (rev ?a)"
  have "rev ?b = [] \<or> \<not> P (hd (rev ?b))"
  proof (cases "?b = []")
    case True
    then show ?thesis by simp
  next
    case False
    have a: "?a \<noteq> []"
    proof
      assume e: "?a = []"
      have "?b = []" unfolding e by simp
      with False show False by blast
    qed
    from False have "hd (rev ?b) = last ?b" by (simp add: hd_rev)
    also from False have "\<dots> = last (rev ?a)" by (rule last_dropWhile_ne)
    also from a have "\<dots> = hd ?a" by (simp add: last_rev)
    finally have "hd (rev ?b) = hd ?a" .
    with hd_dropWhile [OF a] show ?thesis by simp
  qed
  then have "dropWhile P (rev ?b) = rev ?b" by (rule dropWhile_self)
  then show ?thesis by (simp add: dropWhile_idem)
qed

lemma trim_idem: "trim (trim s) = trim s"
  unfolding trim_def by (rule trim_core_idem)

section \<open>Search: which response is displayed\<close>

lemma search_run_snoc: "search_run s (evs @ [ev]) = search_step (search_run s evs) ev"
  by (simp add: search_run_def)

lemma search_run_append: "search_run s (evs @ evs') = search_run (search_run s evs) evs'"
  by (simp add: search_run_def)

lemma search_run_Cons: "search_run s (ev # evs) = search_run (search_step s ev) evs"
  by (simp add: search_run_def)

lemma search_input_results: "sp_results (fst (search_input s q)) = sp_results s"
  by (simp add: search_input_def SearchBar_effect_def handleSearch_def trim_idem)

lemma search_input_nonblank:
  "trim q \<noteq> [] \<Longrightarrow> snd (search_input s q) = [SearchShows (trim q)]"
  by (simp add: search_input_def SearchBar_effect_def handleSearch_def trim_idem)

lemma only_searches_results: "only_searches qs \<Longrightarrow> sp_results (search_run s qs) = sp_results s"
proof (induction qs arbitrary: s)
  case Nil
  show ?case by (simp add: search_run_def)
next
  case (Cons ev qs)
  then show ?case
    by (cases ev) (simp_all add: search_run_Cons search_step_def search_input_results)
qed

lemma only_searches_issued: "only_searches qs \<Longrightarrow> length (issued s qs) = length qs"
proof (induction qs arbitrary: s)
  case Nil
  show ?case by simp
next
  case (Cons ev qs)
  then show ?case
    by (cases ev) (simp_all add: search_input_nonblank)
qed

lemma issued_append: "issued s (xs @ ys) = issued s xs @ issued (search_run s xs) ys"
proof (induction xs arbitrary: s)
  case Nil
  show ?case by (simp add: search_run_def)
next
  case (Cons ev xs)
  then show ?case by (cases ev) (simp_all add: search_run_Cons)
qed

text \<open>
  C1 (as amended). \<open>handleSearch\<close> carries no request number and compares nothing when a
  response lands. After any trace the displayed results are those of the response that
  arrived last, whichever query it answers (and none after a failed request): a
  response that lands when a newer query \<open>q2\<close> is the last one issued is displayed all
  the same, and issuing further non-blank queries leaves the displayed results in
  place.
\<close>

theorem search_last_response_wins:
  "sp_results (search_run s (evs @ [SearchResolved r])) = srp_results r
   \<and> sp_results (search_run s (evs @ [SearchRejected])) = []
   \<and> (trim q2 \<noteq> [] \<longrightarrow>
        issued s (evs @ [DebouncedQuery q2, SearchResolved r]) =
          issued s evs @ [SearchShows (trim q2)]
        \<and> sp_results (search_run s (evs @ [DebouncedQuery q2, SearchResolved r])) =
          srp_results r)
   \<and> (only_searches qs \<longrightarrow>
        length (issued (search_run s (evs @ [SearchResolved r])) qs) = length qs
        \<and> sp_results (search_run s (evs @ SearchResolved r # qs)) = srp_results r)"
proof (intro conjI impI)
  show "sp_results (search_run s (evs @ [SearchResolved r])) = srp_results r"
    by (simp add: search_run_snoc search_step_def handleSearch_resolved_def)
  show "sp_results (search_run s (evs @ [SearchRejected])) = []"
    by (simp add: search_run_snoc search_step_def handleSearch_rejected_def)
next
  assume "trim q2 \<noteq> []"
  then show "issued s (evs @ [DebouncedQuery q2, SearchResolved r]) =
          issued s evs @ [SearchShows (trim q2)]"
    by (simp add: issued_append search_input_nonblank)
  have "search_run s (evs @ [DebouncedQuery q2, SearchResolved r]) =
        search_step (search_run s (evs @ [DebouncedQuery q2])) (SearchResolved r)"
    by (simp add: search_run_def)
  then show "sp_results (search_run s (evs @ [DebouncedQuery q2, SearchResolved r])) =
          srp_results r"
    by (simp add: search_step_def handleSearch_resolved_def)
next
  assume q: "only_searches qs"
  then show "length (issued (search_run s (evs @ [SearchResolved r])) qs) = length qs"
    by (rule only_searches_issued)
  from q have "sp_results (search_run s (evs @ SearchResolved r # qs)) =
             sp_results (search_step (search_run s evs) (SearchResolved r))"
    by (simp add: search_run_append search_run_Cons only_searches_results)
  then show "sp_results (search_run s (evs @ SearchResolved r # qs)) = srp_results r"
    by (simp add: search_step_def handleSearch_resolved_def)
qed

text \<open>
  At concrete traces: ``the'' is issued, then ``the office'', and the response to ``the''
  lands; and ``the office'' is issued after the response to ``the'' has landed.
\<close>

theorem search_last_response_wins_witness:
  "trim (utf16 ''the office'') \<noteq> []
   \<and> issued SearchPage_init
       ([DebouncedQuery (utf16 ''the'')] @
        [DebouncedQuery (utf16 ''the office''),
         SearchResolved (ex_response (utf16 ''the'') 1)]) =
     [SearchShows (utf16 ''the''), SearchShows (utf16 ''the office'')]
   \<and> sp_results (search_run SearchPage_init
       ([DebouncedQuery (utf16 ''the'')] @
        [DebouncedQuery (utf16 ''the office''),
         SearchResolved (ex_response (utf16 ''the'') 1)])) =
     [\<lparr>sr_score = 1, sr_show = ex_show 1 (utf16 ''the'')\<rparr>]
   \<and> only_searches [DebouncedQuery (utf16 ''the office'')]
   \<and> sp_results (search_run SearchPage_init
       ([DebouncedQuery (utf16 ''the'')] @
        SearchResolved (ex_response (utf16 ''the'') 1) #
        [DebouncedQuery (utf16 ''the office'')])) =
     [\<lparr>sr_score = 1, sr_show = ex_show 1 (utf16 ''the'')\<rparr>]"
proof -
  have n: "trim (utf16 ''the office'') \<noteq> []"
    by (simp add: trim_office utf16_eq_Nil)
  have q: "only_searches [DebouncedQuery (utf16 ''the office'')]"
    by (simp add: trim_office utf16_eq_Nil)
  have i: "issued SearchPage_init [DebouncedQuery (utf16 ''the'')] = [SearchShows (utf16 ''the'')]"
    by (simp add: search_input_def SearchBar_effect_def handleSearch_def trim_the utf16_eq_Nil)
  note T = search_last_response_wins
    [where s = SearchPage_init and evs = "[DebouncedQuery (utf16 ''the'')]"
       and r = "ex_response (utf16 ''the'') 1" and ?q2.0 = "utf16 ''the office''"
       and qs = "[DebouncedQuery (utf16 ''the office'')]"]
  have r: "srp_results (ex_response (utf16 ''the'') 1) =
           [\<lparr>sr_score = 1, sr_show = ex_show 1 (utf16 ''the'')\<rparr>]"
    by (simp add: ex_response_def)
  from T n have "issued SearchPage_init
       ([DebouncedQuery (utf16 ''the'')] @
        [DebouncedQuery (utf16 ''the office''),
         SearchResolved (ex_response (utf16 ''the'') 1)]) =
     issued SearchPage_init [DebouncedQuery (utf16 ''the'')] @
     [SearchShows (trim (utf16 ''the office''))]"
    by blast
  then have a: "issued SearchPage_init
       ([DebouncedQuery (utf16 ''the'')] @
        [DebouncedQuery (utf16 ''the office''),
         SearchResolved (ex_response (utf16 ''the'') 1)]) =
     [SearchShows (utf16 ''the''), SearchShows (utf16 ''the office'')]"
    by (simp only: i trim_office append.simps)
  from T n have "sp_results (search_run SearchPage_init
       ([DebouncedQuery (utf16 ''the'')] @
        [DebouncedQuery (utf16 ''the office''),
         SearchResolved (ex_response (utf16 ''the'') 1)])) =
     srp_results (ex_response (utf16 ''the'') 1)"
    by blast
  then have b: "sp_results (search_run SearchPage_init
       ([DebouncedQuery (utf16 ''the'')] @
        [DebouncedQuery (utf16 ''the office''),
         SearchResolved (ex_response (utf16 ''the'') 1)])) =
     [\<lparr>sr_score = 1, sr_show = ex_show 1 (utf16 ''the'')\<rparr>]"
    by (simp only: r)
  from T q have "sp_results (search_run SearchPage_init
       ([DebouncedQuery (utf16 ''the'')] @
        SearchResolved (ex_response (utf16 ''the'') 1) #
        [DebouncedQuery (utf16 ''the office'')])) =
     srp_results (ex_response (utf16 ''the'') 1)"
    by blast
  then have c: "sp_results (search_run SearchPage_init
       ([DebouncedQuery (utf16 ''the'')] @
        SearchResolved (ex_response (utf16 ''the'') 1) #
        [DebouncedQuery (utf16 ''the office'')])) =
     [\<lparr>sr_score = 1, sr_show = ex_show 1 (utf16 ''the'')\<rparr>]"
    by (simp only: r)
  from n a b q c show ?thesis by blast
qed

text \<open>
  C1 as stated fails: the most recently issued query is ``the office'', and the results
  displayed at the end are those of the stale query ``the''.
\<close>

theorem search_stale_response_counterexample:
  "issued SearchPage_init
     [DebouncedQuery (utf16 ''the''), DebouncedQuery (utf16 ''the office''),
      SearchResolved (ex_response (utf16 ''the office'') 2),
      SearchResolved (ex_response (utf16 ''the'') 1)] =
     [SearchShows (utf16 ''the''), SearchShows (utf16 ''the office'')]
   \<and> sp_results (search_run SearchPage_init
       [DebouncedQuery (utf16 ''the''), DebouncedQuery (utf16 ''the office''),
        SearchResolved (ex_response (utf16 ''the office'') 2),
        SearchResolved (ex_response (utf16 ''the'') 1)]) =
     srp_results (ex_response (utf16 ''the'') 1)
   \<and> srp_results (ex_response (utf16 ''the'') 1) \<noteq>
     srp_results (ex_response (utf16 ''the office'') 2)"
  by (simp add: search_run_def search_step_def search_input_def SearchBar_effect_def
        handleSearch_def handleSearch_resolved_def trim_office trim_the ex_response_def
        ex_show_def utf16_eq_Nil)

section \<open>Search: empty input\<close>

text \<open>
  C8 (the code at the failing input). With the results of ``the'' on display, an empty
  or blank debounced input issues no request and leaves the page as it is: SearchBar
  does not call \<open>onSearch\<close>, so the branch of \<open>handleSearch\<close> that clears the results
  (last conjunct) is never reached from the input.
\<close>

theorem empty_search_keeps_results:
  "search_input
     (search_run SearchPage_init
        [DebouncedQuery (utf16 ''the''), SearchResolved (ex_response (utf16 ''the'') 1)]) [] =
   (search_run SearchPage_init
        [DebouncedQuery (utf16 ''the''), SearchResolved (ex_response (utf16 ''the'') 1)], [])
   \<and> sp_results (fst (search_input
       (search_run SearchPage_init
          [DebouncedQuery (utf16 ''the''), SearchResolved (ex_response (utf16 ''the'') 1)])
       (utf16 ''   ''))) = srp_results (ex_response (utf16 ''the'') 1)
   \<and> srp_results (ex_response (utf16 ''the'') 1) \<noteq> []
   \<and> sp_results (fst (handleSearch
       (search_run SearchPage_init
          [DebouncedQuery (utf16 ''the''), SearchResolved (ex_response (utf16 ''the'') 1)])
       [])) = []"
  by (simp add: search_run_def search_step_def search_input_def SearchBar_effect_def
        handleSearch_def handleSearch_resolved_def trim_the trim_Nil trim_blank
        ex_response_def utf16_eq_Nil)

section \<open>Detail load\<close>

lemma load_run_Nil: "load_run showId [] = activate showId"
  by (simp add: load_run_def)

lemma load_run_snoc: "load_run showId (evs @ [ev]) = load_step (load_run showId evs) ev"
  by (simp add: load_run_def)

lemma load_inv_activate: "load_inv showId (activate showId)"
  by (simp add: load_inv_def activate_def promise_all_init_def)

lemma load_step_settled: "pa_settled (snd st) \<Longrightarrow> load_step st ev = st"
  by (simp add: load_step_def promise_all_step_def)

lemma foldl_settled: "pa_settled (snd st) \<Longrightarrow> foldl load_step st evs = st"
  by (induction evs) (simp_all add: load_step_settled)

lemma load_inv_step: "load_inv showId st \<Longrightarrow> load_inv showId (load_step st ev)"
proof (cases "pa_settled (snd st)")
  case True
  assume "load_inv showId st"
  with True show ?thesis by (simp add: load_step_settled)
next
  case False
  assume inv: "load_inv showId st"
  obtain p pa where st: "st = (p, pa)" by (cases st)
  from inv False st have p: "p = fst (activate showId)"
    by (simp add: load_inv_def)
  from inv False st have pending:
    "pa_details pa = None \<or> pa_watched pa = None \<or> pa_comments pa = None"
    by (simp add: load_inv_def)
  show ?thesis
  proof (cases ev)
    case (DetailsResolved d)
    with False st p pending show ?thesis
      by (cases "pa_watched pa"; cases "pa_comments pa"; cases "pa_details pa")
         (simp_all add: load_inv_def load_step_def promise_all_step_def all_check_def)
  next
    case (WatchedResolved w)
    with False st p pending show ?thesis
      by (cases "pa_watched pa"; cases "pa_comments pa"; cases "pa_details pa")
         (simp_all add: load_inv_def load_step_def promise_all_step_def all_check_def)
  next
    case (CommentsResolved c)
    with False st p pending show ?thesis
      by (cases "pa_watched pa"; cases "pa_comments pa"; cases "pa_details pa")
         (simp_all add: load_inv_def load_step_def promise_all_step_def all_check_def)
  next
    case DetailsRejected
    with False st p pending show ?thesis
      by (cases "pa_details pa")
         (simp_all add: load_inv_def load_step_def promise_all_step_def all_reject_def)
  next
    case WatchedRejected
    with False st p pending show ?thesis
      by (cases "pa_watched pa")
         (simp_all add: load_inv_def load_step_def promise_all_step_def all_reject_def)
  next
    case CommentsRejected
    with False st p pending show ?thesis
      by (cases "pa_comments pa")
         (simp_all add: load_inv_def load_step_def promise_all_step_def all_reject_def)
  qed
qed

lemma load_inv_run: "load_inv showId (load_run showId evs)"
  by (induction evs rule: rev_induct)
     (simp_all add: load_run_Nil load_run_snoc load_inv_activate load_inv_step)

text \<open>A response held by the aggregate was delivered by an event of the trace.\<close>

lemma slot_step:
  "(pa_details (snd (load_step st ev)) = Some d \<longrightarrow>
      pa_details (snd st) = Some d \<or> ev = DetailsResolved d) \<and>
   (pa_watched (snd (load_step st ev)) = Some w \<longrightarrow>
      pa_watched (snd st) = Some w \<or> ev = WatchedResolved w) \<and>
   (pa_comments (snd (load_step st ev)) = Some c \<longrightarrow>
      pa_comments (snd st) = Some c \<or> ev = CommentsResolved c)"
  by (cases ev)
     (auto simp: load_step_def promise_all_step_def all_check_def all_reject_def
           split: option.splits all_outcome.splits if_splits prod.splits)

lemma slots_from_events:
  "(pa_details (snd (load_run showId evs)) = Some d \<longrightarrow> DetailsResolved d \<in> set evs) \<and>
   (pa_watched (snd (load_run showId evs)) = Some w \<longrightarrow> WatchedResolved w \<in> set evs) \<and>
   (pa_comments (snd (load_run showId evs)) = Some c \<longrightarrow> CommentsResolved c \<in> set evs)"
proof (induction evs rule: rev_induct)
  case Nil
  then show ?case by (simp add: load_run_Nil activate_def promise_all_init_def)
next
  case (snoc ev evs)
  from slot_step [of "load_run showId evs" ev d w c] snoc show ?case
    by (auto simp: load_run_snoc)
qed

lemma rejects_step:
  "rejects (snd st) ev \<Longrightarrow>
   load_step st ev = (loadShowData_rejected (fst st), (snd st)\<lparr>pa_settled := True\<rparr>)"
  by (cases ev) (simp_all add: load_step_def promise_all_step_def all_reject_def)

lemma rejects_unsettled: "rejects pa ev \<Longrightarrow> \<not> pa_settled pa"
  by (cases ev) simp_all

lemma rejected_run:
  assumes "rejects (snd (load_run showId pre)) ev"
  shows "fst (load_run showId (pre @ ev # post)) = loadShowData_rejected (fst (activate showId))"
proof -
  let ?st = "load_run showId pre"
  from assms have "\<not> pa_settled (snd ?st)" by (rule rejects_unsettled)
  with load_inv_run [of showId pre] have p: "fst ?st = fst (activate showId)"
    by (simp add: load_inv_def)
  have "load_run showId (pre @ ev # post) = foldl load_step (load_step ?st ev) post"
    by (simp add: load_run_def)
  also have "\<dots> = load_step ?st ev"
    by (rule foldl_settled) (simp add: rejects_step [OF assms])
  finally show ?thesis by (simp add: rejects_step [OF assms] p)
qed

lemma render_rejected:
  "ShowDetailPage_render (loadShowData_rejected s) =
     ErrorScreen (utf16 ''Failed to load show details. Please try again.'')"
  by (simp add: ShowDetailPage_render_def loadShowData_rejected_def truthy_def js_or_def
        utf16_def split: option.split)

lemma render_detail_run:
  assumes "ShowDetailPage_render (fst (load_run showId evs)) = Detail d"
  shows "\<exists>w c. pa_details (snd (load_run showId evs)) = Some d \<and>
               pa_watched (snd (load_run showId evs)) = Some w \<and>
               pa_comments (snd (load_run showId evs)) = Some c \<and>
               fst (load_run showId evs) = loadShowData_resolved d w c (fst (activate showId))"
proof -
  let ?st = "load_run showId evs"
  have inv: "load_inv showId ?st" by (rule load_inv_run)
  show ?thesis
  proof (cases "pa_settled (snd ?st)")
    case False
    with inv have "fst ?st = fst (activate showId)" by (simp add: load_inv_def)
    with assms show ?thesis
      by (simp add: activate_def loadShowData_def ShowDetailPage_render_def)
  next
    case True
    show ?thesis
    proof (cases "fst ?st = loadShowData_rejected (fst (activate showId))")
      case True
      with assms show ?thesis by (simp add: render_rejected)
    next
      case False
      with inv \<open>pa_settled (snd ?st)\<close> obtain d' w c where
        slots: "pa_details (snd ?st) = Some d'" "pa_watched (snd ?st) = Some w"
               "pa_comments (snd ?st) = Some c" and
        p: "fst ?st = loadShowData_resolved d' w c (fst (activate showId))"
        by (auto simp: load_inv_def split: option.splits)
      from assms p have "d' = d"
        by (simp add: ShowDetailPage_render_def loadShowData_resolved_def activate_def
              loadShowData_def ShowDetailPage_init_def truthy_def split: if_splits)
      with slots p show ?thesis by simp
    qed
  qed
qed

lemma ex_run_ready:
  "fst (load_run 1 [DetailsResolved ex_detail, WatchedResolved ex_watched,
                    CommentsResolved ex_comments]) = ex_ready"
  by (simp add: load_run_def load_step_def promise_all_step_def all_check_def activate_def
        promise_all_init_def ex_ready_def)

lemma ex_ready_render: "ShowDetailPage_render ex_ready = Detail ex_detail"
  by (simp add: ex_ready_def loadShowData_resolved_def activate_def loadShowData_def
        ShowDetailPage_render_def truthy_def)

text \<open>
  C6. Activation issues the three loads in one synchronous step and shows the spinner.
  For every sequence of load events: the detail view of \<open>d\<close> is rendered only if the
  three loads have resolved (the page then holds exactly what they returned); and as
  soon as one pending load fails, the error screen is rendered, with no show data and
  no comments on the page, and it stays whatever arrives afterwards.
\<close>

theorem detail_load_all_or_error:
  "snd (loadShowData showId ShowDetailPage_init) =
     [GetShowDetails showId, GetWatchedEpisodes showId, GetShowComments showId]
   \<and> ShowDetailPage_render (fst (activate showId)) = Spinner
   \<and> (ShowDetailPage_render (fst (load_run showId evs)) = Detail d \<longrightarrow>
        (\<exists>w c. DetailsResolved d \<in> set evs \<and> WatchedResolved w \<in> set evs \<and>
               CommentsResolved c \<in> set evs \<and>
               fst (load_run showId evs) =
                 loadShowData_resolved d w c (fst (activate showId))))
   \<and> (rejects (snd (load_run showId pre)) ev \<longrightarrow>
        ShowDetailPage_render (fst (load_run showId (pre @ ev # post))) =
          ErrorScreen (utf16 ''Failed to load show details. Please try again.'')
        \<and> showData (fst (load_run showId (pre @ ev # post))) = None
        \<and> showComments (fst (load_run showId (pre @ ev # post))) = [])"
proof (intro conjI impI)
  show "snd (loadShowData showId ShowDetailPage_init) =
     [GetShowDetails showId, GetWatchedEpisodes showId, GetShowComments showId]"
    by (simp add: loadShowData_def)
  show "ShowDetailPage_render (fst (activate showId)) = Spinner"
    by (simp add: activate_def loadShowData_def ShowDetailPage_render_def)
next
  assume "ShowDetailPage_render (fst (load_run showId evs)) = Detail d"
  then obtain w c where
    "pa_details (snd (load_run showId evs)) = Some d"
    "pa_watched (snd (load_run showId evs)) = Some w"
    "pa_comments (snd (load_run showId evs)) = Some c"
    "fst (load_run showId evs) = loadShowData_resolved d w c (fst (activate showId))"
    using render_detail_run by blast
  with slots_from_events [of showId evs d w c]
  show "\<exists>w c. DetailsResolved d \<in> set evs \<and> WatchedResolved w \<in> set evs \<and>
               CommentsResolved c \<in> set evs \<and>
               fst (load_run showId evs) =
                 loadShowData_resolved d w c (fst (activate showId))"
    by blast
next
  assume r: "rejects (snd (load_run showId pre)) ev"
  show "ShowDetailPage_render (fst (load_run showId (pre @ ev # post))) =
          ErrorScreen (utf16 ''Failed to load show details. Please try again.'')"
    by (simp add: rejected_run [OF r] render_rejected)
  show "showData (fst (load_run showId (pre @ ev # post))) = None"
    by (simp add: rejected_run [OF r] loadShowData_rejected_def activate_def
          loadShowData_def ShowDetailPage_init_def)
  show "showComments (fst (load_run showId (pre @ ev # post))) = []"
    by (simp add: rejected_run [OF r] loadShowData_rejected_def activate_def
          loadShowData_def ShowDetailPage_init_def)
qed

text \<open>
  At concrete traces: all three loads resolve; and the comments load fails after the two
  others have resolved.
\<close>

theorem detail_load_all_or_error_witness:
  "ShowDetailPage_render
     (fst (load_run 1 [DetailsResolved ex_detail, WatchedResolved ex_watched,
                       CommentsResolved ex_comments])) = Detail ex_detail
   \<and> (\<exists>w c. fst (load_run 1 [DetailsResolved ex_detail, WatchedResolved ex_watched,
                              CommentsResolved ex_comments]) =
              loadShowData_resolved ex_detail w c (fst (activate 1)))
   \<and> rejects (snd (load_run 1 [DetailsResolved ex_detail, WatchedResolved ex_watched]))
       CommentsRejected
   \<and> ShowDetailPage_render
       (fst (load_run 1 ([DetailsResolved ex_detail, WatchedResolved ex_watched] @
                         CommentsRejected # [CommentsResolved ex_comments]))) =
     ErrorScreen (utf16 ''Failed to load show details. Please try again.'')
   \<and> showData
       (fst (load_run 1 ([DetailsResolved ex_detail, WatchedResolved ex_watched] @
                         CommentsRejected # [CommentsResolved ex_comments]))) = None"
proof -
  have h1: "ShowDetailPage_render
     (fst (load_run 1 [DetailsResolved ex_detail, WatchedResolved ex_watched,
                       CommentsResolved ex_comments])) = Detail ex_detail"
    by (simp only: ex_run_ready ex_ready_render)
  have h2: "rejects (snd (load_run 1 [DetailsResolved ex_detail, WatchedResolved ex_watched]))
       CommentsRejected"
    by (simp add: load_run_def load_step_def promise_all_step_def all_check_def activate_def
          promise_all_init_def)
  from detail_load_all_or_error
    [of 1 "[DetailsResolved ex_detail, WatchedResolved ex_watched, CommentsResolved ex_comments]"
        ex_detail "[DetailsResolved ex_detail, WatchedResolved ex_watched]" CommentsRejected
        "[CommentsResolved ex_comments]"]
    h1 h2
  show ?thesis by blast
qed

text \<open>
  C7. Whenever the detail view of \<open>d\<close> is rendered after a load, the selected season
  is the number of the first season of \<open>d\<close> and the season shown is that first season;
  when \<open>d\<close> has no season, none is selected, the episode list is empty and no error is
  set. Three resolved loads always reach the detail view, with or without seasons.
\<close>

theorem default_season:
  "(ShowDetailPage_render (fst (load_run showId evs)) = Detail d \<longrightarrow>
      selectedSeason (fst (load_run showId evs)) =
        (case sd_seasons d of [] \<Rightarrow> None | x # _ \<Rightarrow> Some (se_season x))
      \<and> currentSeason (fst (load_run showId evs)) d =
        (case sd_seasons d of [] \<Rightarrow> None | x # _ \<Rightarrow> Some x)
      \<and> episode_list (fst (load_run showId evs)) d =
        (case sd_seasons d of [] \<Rightarrow> [] | x # _ \<Rightarrow> se_episodes x)
      \<and> error (fst (load_run showId evs)) = None)
   \<and> ShowDetailPage_render
        (fst (load_run showId [DetailsResolved d, WatchedResolved w, CommentsResolved c])) =
      Detail d"
proof (intro conjI impI)
  assume "ShowDetailPage_render (fst (load_run showId evs)) = Detail d"
  then obtain w c where
    p: "fst (load_run showId evs) = loadShowData_resolved d w c (fst (activate showId))"
    using render_detail_run by blast
  show "selectedSeason (fst (load_run showId evs)) =
        (case sd_seasons d of [] \<Rightarrow> None | x # _ \<Rightarrow> Some (se_season x))"
    by (simp add: p loadShowData_resolved_def activate_def loadShowData_def
          ShowDetailPage_init_def split: list.split)
  then show "currentSeason (fst (load_run showId evs)) d =
        (case sd_seasons d of [] \<Rightarrow> None | x # _ \<Rightarrow> Some x)"
    by (simp add: currentSeason_def split: list.split)
  then show "episode_list (fst (load_run showId evs)) d =
        (case sd_seasons d of [] \<Rightarrow> [] | x # _ \<Rightarrow> se_episodes x)"
    by (simp add: episode_list_def split: list.split)
  show "error (fst (load_run showId evs)) = None"
    by (simp add: p loadShowData_resolved_def activate_def loadShowData_def)
next
  show "ShowDetailPage_render
        (fst (load_run showId [DetailsResolved d, WatchedResolved w, CommentsResolved c])) =
      Detail d"
    by (simp add: load_run_def load_step_def promise_all_step_def all_check_def activate_def
          promise_all_init_def loadShowData_def loadShowData_resolved_def
          ShowDetailPage_render_def truthy_def)
qed

text \<open>At a show without seasons, and at a show with one season of two episodes.\<close>

theorem default_season_witness:
  "ShowDetailPage_render
     (fst (load_run 1 [DetailsResolved (ex_detail\<lparr>sd_seasons := []\<rparr>),
                       WatchedResolved ex_watched, CommentsResolved ex_comments])) =
     Detail (ex_detail\<lparr>sd_seasons := []\<rparr>)
   \<and> selectedSeason
       (fst (load_run 1 [DetailsResolved (ex_detail\<lparr>sd_seasons := []\<rparr>),
                         WatchedResolved ex_watched, CommentsResolved ex_comments])) = None
   \<and> episode_list
       (fst (load_run 1 [DetailsResolved (ex_detail\<lparr>sd_seasons := []\<rparr>),
                         WatchedResolved ex_watched, CommentsResolved ex_comments]))
       (ex_detail\<lparr>sd_seasons := []\<rparr>) = []
   \<and> error
       (fst (load_run 1 [DetailsResolved (ex_detail\<lparr>sd_seasons := []\<rparr>),
                         WatchedResolved ex_watched, CommentsResolved ex_comments])) = None
   \<and> ShowDetailPage_render
       (fst (load_run 1 [DetailsResolved ex_detail, WatchedResolved ex_watched,
                         CommentsResolved ex_comments])) = Detail ex_detail
   \<and> selectedSeason
       (fst (load_run 1 [DetailsResolved ex_detail, WatchedResolved ex_watched,
                         CommentsResolved ex_comments])) = Some 1
   \<and> episode_list
       (fst (load_run 1 [DetailsResolved ex_detail, WatchedResolved ex_watched,
                         CommentsResolved ex_comments])) ex_detail =
     [ex_episode 10 1, ex_episode 11 2]"
proof -
  let ?e = "[DetailsResolved (ex_detail\<lparr>sd_seasons := []\<rparr>),
             WatchedResolved ex_watched, CommentsResolved ex_comments]"
  let ?f = "[DetailsResolved ex_detail, WatchedResolved ex_watched,
             CommentsResolved ex_comments]"
  have s0: "sd_seasons (ex_detail\<lparr>sd_seasons := []\<rparr>) = []" by simp
  have s1: "sd_seasons ex_detail =
              [\<lparr>se_season = 1, se_episodes = [ex_episode 10 1, ex_episode 11 2]\<rparr>]"
    by (simp add: ex_detail_def)
  from default_season [of 1 ?e "ex_detail\<lparr>sd_seasons := []\<rparr>" ex_watched ex_comments]
  have a: "ShowDetailPage_render (fst (load_run 1 ?e)) = Detail (ex_detail\<lparr>sd_seasons := []\<rparr>)"
    and b: "selectedSeason (fst (load_run 1 ?e)) = None"
    and c: "episode_list (fst (load_run 1 ?e)) (ex_detail\<lparr>sd_seasons := []\<rparr>) = []"
    and d: "error (fst (load_run 1 ?e)) = None"
    by (simp_all only: s0 list.case simp_thms)
  from default_season [of 1 ?f ex_detail ex_watched ex_comments]
  have e: "ShowDetailPage_render (fst (load_run 1 ?f)) = Detail ex_detail"
    and f: "selectedSeason (fst (load_run 1 ?f)) = Some 1"
    and g: "episode_list (fst (load_run 1 ?f)) ex_detail = [ex_episode 10 1, ex_episode 11 2]"
    by (simp_all add: s1)
  from a b c d e f g show ?thesis by blast
qed

section \<open>Watched toggle\<close>

text \<open>
  C5. \<open>handleToggleWatched\<close> on episode \<open>e\<close> flips the membership of \<open>e\<close> at once,
  touches no other episode, and issues the unmark or the mark request that matches. If
  the request succeeds the state stays as it is; if it fails, the membership of \<open>e\<close>
  is set back to its value before the call (the whole state is the one before the call
  when nothing happened in between, and in any later state \<open>s2\<close> only \<open>e\<close> is reset).
  Neither continuation issues a request: there is no retry.
\<close>

theorem toggle_optimistic_rollback:
  "let w = (e \<in> watchedEpisodes s);
       r = handleToggleWatched showId s e;
       s1 = fst r
   in (e \<in> watchedEpisodes s1) = (\<not> w)
    \<and> watchedEpisodes s1 - {e} = watchedEpisodes s - {e}
    \<and> snd r = [if w then UnmarkEpisodeWatched showId e
                else MarkEpisodeWatched \<lparr>mw_episode_id = e, mw_show_id = showId\<rparr>]
    \<and> handleToggleWatched_resolved s1 = (s1, [])
    \<and> handleToggleWatched_rejected w e s1 = (s, [])
    \<and> (e \<in> watchedEpisodes (fst (handleToggleWatched_rejected w e s2))) = w
    \<and> watchedEpisodes (fst (handleToggleWatched_rejected w e s2)) - {e} = watchedEpisodes s2 - {e}
    \<and> snd (handleToggleWatched_rejected w e s2) = []"
  by (auto simp: handleToggleWatched_def handleToggleWatched_resolved_def
        handleToggleWatched_rejected_def Let_def insert_absorb)

text \<open>At the watched set {1, 2}, toggling episode 2 of show 7.\<close>

theorem toggle_optimistic_rollback_witness:
  "let s = ShowDetailPage_init\<lparr>watchedEpisodes := {1, 2}\<rparr>;
       s1 = fst (handleToggleWatched 7 s 2)
   in watchedEpisodes s1 = {1}
    \<and> snd (handleToggleWatched 7 s 2) = [UnmarkEpisodeWatched 7 2]
    \<and> fst (handleToggleWatched_rejected True 2 s1) = s
    \<and> fst (handleToggleWatched_resolved s1) = s1"
  using toggle_optimistic_rollback
    [of 2 "ShowDetailPage_init\<lparr>watchedEpisodes := {1, 2}\<rparr>" 7 ShowDetailPage_init]
  by (simp add: Let_def handleToggleWatched_def ShowDetailPage_init_def insert_Diff_if)

section \<open>Comments\<close>

text \<open>
  C9. Adding a comment changes neither comment list before the server answers. On
  success the returned comment is put in front of the list of its scope, the rest of
  that list and the other list unchanged; on failure nothing changes.
\<close>

theorem comment_add_after_confirmation:
  "showComments (fst (handleAddShowComment showId s content)) = showComments s
   \<and> episodeComments (fst (handleAddShowComment showId s content)) = episodeComments s
   \<and> showComments (fst (handleAddEpisodeComment showId s content)) = showComments s
   \<and> episodeComments (fst (handleAddEpisodeComment showId s content)) = episodeComments s
   \<and> showComments (handleAddShowComment_resolved c s') = c # showComments s'
   \<and> episodeComments (handleAddShowComment_resolved c s') = episodeComments s'
   \<and> episodeComments (handleAddEpisodeComment_resolved c s') = c # episodeComments s'
   \<and> showComments (handleAddEpisodeComment_resolved c s') = showComments s'
   \<and> handleAddShowComment_rejected s' = s'
   \<and> handleAddEpisodeComment_rejected s' = s'"
  by (simp add: handleAddShowComment_def handleAddEpisodeComment_def
        handleAddShowComment_resolved_def handleAddEpisodeComment_resolved_def
        handleAddShowComment_rejected_def handleAddEpisodeComment_rejected_def
        split: option.split)

text \<open>At the loaded page of show 1, whose only comment has id 100.\<close>

theorem comment_add_after_confirmation_witness:
  "showComments (fst (handleAddShowComment 1 ex_ready (utf16 ''nice''))) = [ex_comment 100 None]
   \<and> showComments (handleAddShowComment_resolved (ex_comment 101 None) ex_ready) =
       [ex_comment 101 None, ex_comment 100 None]"
  using comment_add_after_confirmation
    [of 1 ex_ready "utf16 ''nice''" "ex_comment 101 None" ex_ready]
  by (simp add: ex_ready_def loadShowData_resolved_def ex_comments_def)




section \<open>Episode modal\<close>

text \<open>
  C10. When the load of the episode comments fails, the episode comment list becomes
  empty and its loading flag is cleared; the selected episode, hence whether the modal
  is open, the page's \<open>error\<close> and the view the page renders are unchanged. This holds
  right after opening the modal on \<open>episode\<close> (the modal is then open on it) and in
  whatever state \<open>t\<close> the failure lands.
\<close>

theorem episode_comments_load_failure:
  "let s1 = fst (handleViewEpisodeComments showId s episode);
       s2 = handleViewEpisodeComments_rejected s1;
       t' = handleViewEpisodeComments_rejected t
   in episodeComments s2 = [] \<and> \<not> isLoadingEpisodeComments s2
    \<and> selectedEpisode s2 = Some episode \<and> modal_isOpen s2
    \<and> error s2 = error s \<and> ShowDetailPage_render s2 = ShowDetailPage_render s
    \<and> episodeComments t' = [] \<and> \<not> isLoadingEpisodeComments t'
    \<and> selectedEpisode t' = selectedEpisode t \<and> modal_isOpen t' = modal_isOpen t
    \<and> error t' = error t \<and> ShowDetailPage_render t' = ShowDetailPage_render t"
  by (simp add: Let_def handleViewEpisodeComments_def handleViewEpisodeComments_rejected_def
        modal_isOpen_def ShowDetailPage_render_def split: option.split)

text \<open>At the loaded page of show 1, opening episode 10.\<close>

theorem episode_comments_load_failure_witness:
  "episodeComments (handleViewEpisodeComments_rejected
      (fst (handleViewEpisodeComments 1 ex_ready (ex_episode 10 1)))) = []
   \<and> selectedEpisode (handleViewEpisodeComments_rejected
      (fst (handleViewEpisodeComments 1 ex_ready (ex_episode 10 1)))) = Some (ex_episode 10 1)
   \<and> ShowDetailPage_render (handleViewEpisodeComments_rejected
      (fst (handleViewEpisodeComments 1 ex_ready (ex_episode 10 1)))) = Detail ex_detail"
  using episode_comments_load_failure [of 1 ex_ready "ex_episode 10 1" ex_ready]
  by (simp add: Let_def ex_ready_render)

text \<open>
  C2 (as amended). After open(a), close, open(b) and before any response lands, the
  modal shows \<open>b\<close> with an empty comment list and no insight, loading. The page keeps no
  session tag: a response that lands then is applied to the episode state whichever
  episode it was requested for, while \<open>b\<close> stays selected.
\<close>

theorem modal_open_close_open:
  "selectedEpisode (open_close_open showId s a b) = Some b
   \<and> episodeComments (open_close_open showId s a b) = []
   \<and> episodeInsight (open_close_open showId s a b) = None
   \<and> isLoadingEpisodeComments (open_close_open showId s a b)
   \<and> episodeComments (handleViewEpisodeComments_resolved r (open_close_open showId s a b)) =
       cr_comments r
   \<and> selectedEpisode (handleViewEpisodeComments_resolved r (open_close_open showId s a b)) =
       Some b
   \<and> episodeInsight (handleGenerateEpisodeInsight_resolved i (open_close_open showId s a b)) =
       Some i
   \<and> selectedEpisode (handleGenerateEpisodeInsight_resolved i (open_close_open showId s a b)) =
       Some b"
  by (simp add: open_close_open_def handleViewEpisodeComments_def handleCloseEpisodeModal_def
        handleViewEpisodeComments_resolved_def handleGenerateEpisodeInsight_resolved_def)

text \<open>At episodes 10 and 11 of show 1, with a comment of episode 10 arriving late.\<close>

theorem modal_open_close_open_witness:
  "selectedEpisode (open_close_open 1 ex_ready (ex_episode 10 1) (ex_episode 11 2)) =
     Some (ex_episode 11 2)
   \<and> episodeComments (open_close_open 1 ex_ready (ex_episode 10 1) (ex_episode 11 2)) = []
   \<and> episodeComments
       (handleViewEpisodeComments_resolved \<lparr>cr_comments = [ex_comment 7 (Some 10)]\<rparr>
          (open_close_open 1 ex_ready (ex_episode 10 1) (ex_episode 11 2))) =
     [ex_comment 7 (Some 10)]"
  using modal_open_close_open
    [of 1 ex_ready "ex_episode 10 1" "ex_episode 11 2"
        "\<lparr>cr_comments = [ex_comment 7 (Some 10)]\<rparr>"]
  by simp

text \<open>
  C2 as stated fails: the load for episode 10 answers after episode 11 was opened, and
  the comment of episode 10 is displayed in the modal of episode 11.
\<close>

theorem modal_late_response_counterexample:
  "selectedEpisode
     (handleViewEpisodeComments_resolved \<lparr>cr_comments = [ex_comment 7 (Some 10)]\<rparr>
        (open_close_open 1 ex_ready (ex_episode 10 1) (ex_episode 11 2))) =
     Some (ex_episode 11 2)
   \<and> episodeComments
     (handleViewEpisodeComments_resolved \<lparr>cr_comments = [ex_comment 7 (Some 10)]\<rparr>
        (open_close_open 1 ex_ready (ex_episode 10 1) (ex_episode 11 2))) =
     [ex_comment 7 (Some 10)]
   \<and> \<not> isLoadingEpisodeComments
     (handleViewEpisodeComments_resolved \<lparr>cr_comments = [ex_comment 7 (Some 10)]\<rparr>
        (open_close_open 1 ex_ready (ex_episode 10 1) (ex_episode 11 2)))
   \<and> c_episode_id (ex_comment 7 (Some 10)) = Some (ep_id (ex_episode 10 1))
   \<and> ep_id (ex_episode 10 1) \<noteq> ep_id (ex_episode 11 2)"
  by (simp add: open_close_open_def handleViewEpisodeComments_def handleCloseEpisodeModal_def
        handleViewEpisodeComments_resolved_def ex_comment_def ex_episode_def)

section \<open>Insights\<close>




end
